theory Spec2Isabelle
  imports Complex_Main
begin

section \<open>Python values used by the plugin\<close>

text \<open>
  A Python \<open>str\<close> is a sequence of Unicode code points; \<open>len\<close> counts code points and
  iteration yields them one by one. Code points are natural numbers here. ASCII literals
  of the source are written as HOL strings and converted with \<open>ascii\<close>.
\<close>

type_synonym py_str = "nat list"

definition ascii :: "string \<Rightarrow> py_str" where
  "ascii s = map of_char s"

text \<open>
  The exception classes that the plugin raises, catches or lets through. All are
  subclasses of \<open>Exception\<close>; \<open>RequestError\<close> is \<open>httpx.RequestError\<close> with its
  subclasses, \<open>OtherException\<close> any other subclass of \<open>Exception\<close>.
\<close>

datatype py_exn =
    KeyError | TypeError | ValueError | IndexError | AttributeError
  | RequestError | OtherException

subsection \<open>Lower-case hexadecimal, the format specification \<open>x\<close>\<close>

definition hex_digit :: "nat \<Rightarrow> nat" where
  "hex_digit d = (if d < 10 then 48 + d else 87 + d)"

fun hex :: "nat \<Rightarrow> py_str" where
  "hex n = (if n < 16 then [hex_digit n] else hex (n div 16) @ [hex_digit (n mod 16)])"

declare hex.simps [simp del]

subsection \<open>\<open>str.join\<close>\<close>

fun py_join :: "py_str \<Rightarrow> py_str list \<Rightarrow> py_str" where
  "py_join sep [] = []"
| "py_join sep [x] = x"
| "py_join sep (x # y # ys) = x @ sep @ py_join sep (y # ys)"

subsection \<open>\<open>str.strip\<close>\<close>

text \<open>
  Without an argument \<open>strip\<close> removes leading and trailing white space, the code points
  for which \<open>str.isspace\<close> holds.
\<close>

definition py_isspace :: "nat \<Rightarrow> bool" where
  "py_isspace c =
     ((0x09 \<le> c \<and> c \<le> 0x0D) \<or> (0x1C \<le> c \<and> c \<le> 0x20) \<or> c = 0x85 \<or> c = 0xA0
      \<or> c = 0x1680 \<or> (0x2000 \<le> c \<and> c \<le> 0x200A) \<or> c = 0x2028 \<or> c = 0x2029
      \<or> c = 0x202F \<or> c = 0x205F \<or> c = 0x3000)"

definition py_strip :: "py_str \<Rightarrow> py_str" where
  "py_strip s = rev (dropWhile py_isspace (rev (dropWhile py_isspace s)))"

subsection \<open>\<open>str.format\<close> with keyword arguments\<close>

text \<open>
  The template is scanned from left to right. \<open>{{\<close> and \<open>}}\<close> stand for one brace,
  \<open>{name}\<close> is replaced by the keyword argument \<open>name\<close>, a name that is no keyword
  argument raises \<open>KeyError\<close>, and a brace that is neither doubled nor part of a field
  raises \<open>ValueError\<close>. The second argument of \<open>fmt_scan\<close> is the field name read so
  far while the scan is inside a field. Conversions (\<open>!s\<close>), format specifications
  (\<open>:s\<close>) and positional fields (\<open>{}\<close>, \<open>{0}\<close>) are outside this fragment: on a template
  with one of these the function is not \<open>str.format\<close>. The template of the plugin, the
  only one the plugin ever formats, uses none.
\<close>

definition lbrace :: nat where "lbrace = 0x7B"
definition rbrace :: nat where "rbrace = 0x7D"

fun emit :: "py_str \<Rightarrow> py_exn + py_str \<Rightarrow> py_exn + py_str" where
  "emit pre (Inl e) = Inl e"
| "emit pre (Inr rest) = Inr (pre @ rest)"

fun fmt_scan :: "(py_str \<times> py_str) list \<Rightarrow> py_str option \<Rightarrow> py_str \<Rightarrow> py_exn + py_str" where
  "fmt_scan kw None [] = Inr []"
| "fmt_scan kw (Some name) [] = Inl ValueError"
| "fmt_scan kw None [c] = (if c = lbrace \<or> c = rbrace then Inl ValueError else Inr [c])"
| "fmt_scan kw None (c # c' # cs) =
     (if c = lbrace then
        (if c' = lbrace then emit [lbrace] (fmt_scan kw None cs)
         else fmt_scan kw (Some []) (c' # cs))
      else if c = rbrace then
        (if c' = rbrace then emit [rbrace] (fmt_scan kw None cs) else Inl ValueError)
      else emit [c] (fmt_scan kw None (c' # cs)))"
| "fmt_scan kw (Some name) (c # cs) =
     (if c = rbrace then
        (case map_of kw name of
           None \<Rightarrow> Inl KeyError
         | Some v \<Rightarrow> emit v (fmt_scan kw None cs))
      else fmt_scan kw (Some (name @ [c])) cs)"

definition py_format :: "py_str \<Rightarrow> (py_str \<times> py_str) list \<Rightarrow> py_exn + py_str" where
  "py_format template kw = fmt_scan kw None template"

subsection \<open>Slicing \<open>xs[:n]\<close>\<close>

definition py_slice_to :: "int \<Rightarrow> 'a list \<Rightarrow> 'a list" where
  "py_slice_to n xs =
     (if 0 \<le> n then take (nat n) xs else take (length xs - nat (- n)) xs)"

section \<open>Configuration: \<open>_load_config\<close> and \<open>_validate_config\<close>\<close>

text \<open>
  The configuration is a dictionary from key strings to values. Its values are of the
  kinds that occur in the default configuration: integers, floats, strings and lists of
  strings.
\<close>

datatype py_value = VInt int | VFloat real | VStr py_str | VList "py_str list"

type_synonym config = "(string \<times> py_value) list"

definition default_config :: config where
  "default_config =
     [(''emoji_size'', VInt 128),
      (''twemoji_cdn'', VStr (ascii ''https://cdn.jsdelivr.net/npm/twemoji@latest/assets/svg/'')),
      (''date_codes'', VList (map ascii [
        ''20240204'', ''20250130'', ''20241023'', ''20241021'', ''20240715'',
        ''20240610'', ''20240530'', ''20240214'', ''20240206'', ''20231128'',
        ''20231113'', ''20230821'', ''20230818'', ''20230803'', ''20230426'',
        ''20230421'', ''20230418'', ''20230405'', ''20230301'', ''20230221'',
        ''20230216'', ''20230127'', ''20230126'', ''20221107'', ''20221101'',
        ''20220823'', ''20220815'', ''20220506'', ''20220406'', ''20220203'',
        ''20220110'', ''20211115'', ''20210831'', ''20210521'', ''20210218'',
        ''20201001''])),
      (''base_url_template'', VStr (ascii
        ''https://www.gstatic.com/android/keyboard/emojikitchen/{date_code}/{hex1}/{hex1}_{hex2}.png'')),
      (''request_timeout'', VFloat 3.0),
      (''max_emoji_length'', VInt 2)]"

definition load_config :: config where
  "load_config = default_config"

text \<open>Subscription \<open>self.config[key]\<close> raises \<open>KeyError\<close> on a missing key.\<close>

definition config_get :: "config \<Rightarrow> string \<Rightarrow> py_exn + py_value" where
  "config_get cfg key = (case map_of cfg key of None \<Rightarrow> Inl KeyError | Some v \<Rightarrow> Inr v)"

definition required_keys :: "string list" where
  "required_keys = [''twemoji_cdn'', ''base_url_template'', ''date_codes'']"

fun check_required :: "config \<Rightarrow> string list \<Rightarrow> py_exn + unit" where
  "check_required cfg [] = Inr ()"
| "check_required cfg (key # keys) =
     (if map_of cfg key = None then Inl ValueError else check_required cfg keys)"

fun isinstance_list :: "py_value \<Rightarrow> bool" where
  "isinstance_list (VList xs) = True"
| "isinstance_list v = False"

definition validate_config :: "config \<Rightarrow> py_exn + unit" where
  "validate_config cfg =
     (case check_required cfg required_keys of
        Inl e \<Rightarrow> Inl e
      | Inr u \<Rightarrow>
          (case config_get cfg ''date_codes'' of
             Inl e \<Rightarrow> Inl e
           | Inr v \<Rightarrow> if isinstance_list v then Inr () else Inl TypeError))"

text \<open>
  \<open>__init__\<close> stores the loaded configuration and validates it; the result is the
  configuration of the constructed plugin, or the exception that validation raised.
\<close>

definition plugin_init :: "py_exn + config" where
  "plugin_init =
     (let cfg = load_config
      in case validate_config cfg of Inl e \<Rightarrow> Inl e | Inr u \<Rightarrow> Inr cfg)"

section \<open>The Hex Encoder: \<open>_get_emoji_hex_code\<close>\<close>

text \<open>
  The source drops the variation selectors U+FE0E and U+FE0F, renders every remaining
  code point as \<open>u\<close> followed by its lower-case hexadecimal digits and joins the groups
  with \<open>-\<close>. The body runs under \<open>try\<close> and the handler returns \<open>None\<close>. On a \<open>str\<close>
  argument iteration, \<open>ord\<close> and the formatting cannot raise, so the result is always
  \<open>Some\<close>; the option type keeps the shape of the source's \<open>Optional[str]\<close>.
\<close>

definition variation_selectors :: "nat list" where
  "variation_selectors = [0xFE0E, 0xFE0F]"

definition get_emoji_hex_code :: "py_str \<Rightarrow> py_str option" where
  "get_emoji_hex_code emoji_char =
     (let filtered_chars = filter (\<lambda>c. c \<notin> set variation_selectors) emoji_char
      in Some (py_join (ascii ''-'') (map (\<lambda>c. ascii ''u'' @ hex c) filtered_chars)))"

text \<open>Python truth value of an \<open>Optional[str]\<close>: \<open>None\<close> and the empty string are false.\<close>

fun py_truthy :: "py_str option \<Rightarrow> bool" where
  "py_truthy None = False"
| "py_truthy (Some s) = (s \<noteq> [])"

section \<open>The environment: emoji detection, set iteration and HTTP\<close>

text \<open>
  The plugin calls three collaborators that are not part of it. They are parameters of
  the model.
  \<^item> \<open>emoji.emoji_list\<close> returns the emoji occurrences of a text, \<open>emoji.is_emoji\<close> tells
    whether a string is one emoji; either may raise.
  \<^item> Iterating a Python set yields its elements in an order that depends on hashing and on
    the insertions made. \<open>set_rank\<close> receives the inserted sequence and ranks the elements;
    the iteration order is the distinct elements sorted by rank, so every order of the
    distinct elements is the behaviour of some \<open>set_rank\<close>.
  \<^item> \<open>head_request\<close> is the \<open>HEAD\<close> request of the HTTP client (following redirects) with
    the configured timeout, on a world of type \<open>'w\<close> that it may change. It answers with a
    status code or raises.

  Creating the HTTP client is taken to succeed. Calls of the logger do not influence any
  result and are left out. \<open>download_emoji\<close> is called by no entry point and is not part
  of the model.
\<close>

record emoji_entry =
  match_start :: nat
  match_end :: nat
  emoji :: py_str

datatype head_outcome = Response nat | Raises py_exn

record 'w env =
  emoji_list :: "py_str \<Rightarrow> py_exn + emoji_entry list"
  is_emoji :: "py_str \<Rightarrow> py_exn + bool"
  set_rank :: "py_str list \<Rightarrow> py_str \<Rightarrow> nat"
  head_request :: "py_value \<Rightarrow> py_str \<Rightarrow> 'w \<Rightarrow> head_outcome \<times> 'w"

text \<open>
  The state threaded through a request: the world and the log of the probes issued so
  far, each with its outcome. \<open>client_head\<close> is the only function that extends the log.
\<close>

record 'w net =
  world :: 'w
  probes :: "(py_str \<times> head_outcome) list"

definition client_head ::
  "'w env \<Rightarrow> py_value \<Rightarrow> py_str \<Rightarrow> 'w net \<Rightarrow> head_outcome \<times> 'w net" where
  "client_head env timeout url s =
     (case head_request env timeout url (world s) of
        (outcome, w') \<Rightarrow> (outcome, \<lparr>world = w', probes = probes s @ [(url, outcome)]\<rparr>))"

section \<open>The Emoji Extractor: \<open>_extract_valid_emojis\<close>\<close>

text \<open>
  The set comprehension visits the entries in order and keeps the \<open>emoji\<close> field of those
  that \<open>is_emoji\<close> accepts; \<open>collect_valid\<close> is the sequence of elements it inserts.
\<close>

fun collect_valid :: "'w env \<Rightarrow> emoji_entry list \<Rightarrow> py_exn + py_str list" where
  "collect_valid env [] = Inr []"
| "collect_valid env (entry # entries) =
     (case is_emoji env (emoji entry) of
        Inl e \<Rightarrow> Inl e
      | Inr ok \<Rightarrow>
          (case collect_valid env entries of
             Inl e \<Rightarrow> Inl e
           | Inr rest \<Rightarrow> Inr (if ok then emoji entry # rest else rest)))"

text \<open>\<open>list(set)\<close>: the distinct elements, in the iteration order of the set.\<close>

definition set_to_list :: "'w env \<Rightarrow> py_str list \<Rightarrow> py_str list" where
  "set_to_list env xs = sort_key (set_rank env xs) (remdups xs)"

text \<open>
  Every exception raised in the body is caught and turns into the empty list: one from the
  detector, the \<open>KeyError\<close> of a missing \<open>max_emoji_length\<close> and the \<open>TypeError\<close> of a
  slice bound that is no integer.
\<close>

definition extract_valid_emojis :: "'w env \<Rightarrow> config \<Rightarrow> py_str \<Rightarrow> py_str list" where
  "extract_valid_emojis env cfg text =
     (case emoji_list env text of
        Inl e \<Rightarrow> []
      | Inr emoji_entries \<Rightarrow>
          (case collect_valid env emoji_entries of
             Inl e \<Rightarrow> []
           | Inr inserted \<Rightarrow>
               (let valid_emojis = set_to_list env inserted
                in case config_get cfg ''max_emoji_length'' of
                     Inl e \<Rightarrow> []
                   | Inr (VInt n) \<Rightarrow> py_slice_to n valid_emojis
                   | Inr v \<Rightarrow> [])))"

section \<open>The Composite URL Resolver: \<open>_find_mixed_emoji_url\<close>\<close>

text \<open>
  \<open>self.config["base_url_template"].format(date_code=..., hex1=..., hex2=...)\<close>: a value
  that is no string has no \<open>format\<close> method.
\<close>

definition format_url :: "config \<Rightarrow> py_str \<Rightarrow> py_str \<Rightarrow> py_str \<Rightarrow> py_exn + py_str" where
  "format_url cfg date_code hex1 hex2 =
     (case config_get cfg ''base_url_template'' of
        Inl e \<Rightarrow> Inl e
      | Inr (VStr template) \<Rightarrow>
          py_format template
            [(ascii ''date_code'', date_code), (ascii ''hex1'', hex1), (ascii ''hex2'', hex2)]
      | Inr v \<Rightarrow> Inl AttributeError)"

text \<open>The candidates of one date: the original order, then the reverse if the emoji differ.\<close>

definition url_candidates ::
  "config \<Rightarrow> py_str \<Rightarrow> py_str \<Rightarrow> py_str \<Rightarrow> py_str \<Rightarrow> py_str \<Rightarrow> py_exn + py_str list" where
  "url_candidates cfg emoji1 emoji2 emoji1_hex emoji2_hex date_code =
     (case format_url cfg date_code emoji1_hex emoji2_hex of
        Inl e \<Rightarrow> Inl e
      | Inr url1 \<Rightarrow>
          if emoji1 \<noteq> emoji2 then
            (case format_url cfg date_code emoji2_hex emoji1_hex of
               Inl e \<Rightarrow> Inl e
             | Inr url2 \<Rightarrow> Inr [url1, url2])
          else Inr [url1])"

text \<open>
  The inner loop \<open>for url in url_candidates\<close>. \<open>Inr (Some url)\<close> is the \<open>return url\<close>,
  \<open>Inr None\<close> the end of the loop; a \<open>RequestError\<close> is caught and the loop goes on, any
  other exception leaves the function.
\<close>

fun probe_urls ::
  "'w env \<Rightarrow> py_value \<Rightarrow> py_str list \<Rightarrow> 'w net \<Rightarrow> (py_exn + py_str option) \<times> 'w net" where
  "probe_urls env timeout [] s = (Inr None, s)"
| "probe_urls env timeout (url # urls) s =
     (case client_head env timeout url s of
        (Response status_code, s') \<Rightarrow>
          if status_code = 200 then (Inr (Some url), s') else probe_urls env timeout urls s'
      | (Raises e, s') \<Rightarrow>
          if e = RequestError then probe_urls env timeout urls s' else (Inl e, s'))"

text \<open>The outer loop \<open>for date_code in self.config["date_codes"]\<close>.\<close>

fun probe_dates ::
  "'w env \<Rightarrow> config \<Rightarrow> py_value \<Rightarrow> py_str \<Rightarrow> py_str \<Rightarrow> py_str \<Rightarrow> py_str \<Rightarrow> py_str list \<Rightarrow> 'w net
     \<Rightarrow> (py_exn + py_str option) \<times> 'w net" where
  "probe_dates env cfg timeout emoji1 emoji2 emoji1_hex emoji2_hex [] s = (Inr None, s)"
| "probe_dates env cfg timeout emoji1 emoji2 emoji1_hex emoji2_hex (date_code # date_codes) s =
     (case url_candidates cfg emoji1 emoji2 emoji1_hex emoji2_hex date_code of
        Inl e \<Rightarrow> (Inl e, s)
      | Inr candidates \<Rightarrow>
          (case probe_urls env timeout candidates s of
             (Inr None, s') \<Rightarrow>
               probe_dates env cfg timeout emoji1 emoji2 emoji1_hex emoji2_hex date_codes s'
           | (found_or_raised, s') \<Rightarrow> (found_or_raised, s')))"

text \<open>
  What the \<open>for\<close> statement iterates over: the elements of a list, the one-character
  strings of a string, and a \<open>TypeError\<close> for a number.
\<close>

fun py_iter :: "py_value \<Rightarrow> py_exn + py_str list" where
  "py_iter (VList xs) = Inr xs"
| "py_iter (VStr s) = Inr (map (\<lambda>c. [c]) s)"
| "py_iter v = Inl TypeError"

text \<open>
  \<open>find_with_hex_codes\<close> is the body of \<open>_find_mixed_emoji_url\<close> from the check of the
  two encoder results on; \<open>find_mixed_emoji_url\<close> runs it on the results of the encoder.
\<close>

definition find_with_hex_codes ::
  "'w env \<Rightarrow> config \<Rightarrow> py_str \<Rightarrow> py_str \<Rightarrow> py_str option \<Rightarrow> py_str option \<Rightarrow> 'w net
     \<Rightarrow> (py_exn + py_str option) \<times> 'w net" where
  "find_with_hex_codes env cfg emoji1 emoji2 emoji1_hex emoji2_hex s =
     (if \<not> py_truthy emoji1_hex \<or> \<not> py_truthy emoji2_hex then (Inr None, s)
      else
        (case config_get cfg ''request_timeout'' of
           Inl e \<Rightarrow> (Inl e, s)
         | Inr timeout \<Rightarrow>
             (case config_get cfg ''date_codes'' of
                Inl e \<Rightarrow> (Inl e, s)
              | Inr v \<Rightarrow>
                  (case py_iter v of
                     Inl e \<Rightarrow> (Inl e, s)
                   | Inr date_codes \<Rightarrow>
                       probe_dates env cfg timeout emoji1 emoji2
                         (the emoji1_hex) (the emoji2_hex) date_codes s))))"

definition find_mixed_emoji_url ::
  "'w env \<Rightarrow> config \<Rightarrow> py_str \<Rightarrow> py_str \<Rightarrow> 'w net \<Rightarrow> (py_exn + py_str option) \<times> 'w net" where
  "find_mixed_emoji_url env cfg emoji1 emoji2 s =
     (let emoji1_hex = get_emoji_hex_code emoji1;
          emoji2_hex = get_emoji_hex_code emoji2
      in find_with_hex_codes env cfg emoji1 emoji2 emoji1_hex emoji2_hex s)"

section \<open>The Request Handler\<close>

text \<open>
  An event carries the plain text of the message. A reply is built by \<open>plain_result\<close> or
  \<open>image_result\<close>. The three texts are the literals of the source, as code points.
\<close>

record event =
  message_str :: py_str

datatype MessageEventResult = plain_result py_str | image_result py_str

definition usage_text :: py_str where
  "usage_text = [
     0x1f914, 0x20, 0x8bf7, 0x63d0, 0x4f9b, 0x6070, 0x597d, 0x4e24, 0x4e2a, 0x4e0d,
     0x540c, 0x7684, 0x45, 0x6d, 0x6f, 0x6a, 0x69, 0x6765, 0x5408, 0x6210,
     0xa, 0x793a, 0x4f8b, 0x3a, 0x20, 0x60, 0x2f, 0x65, 0x6d, 0x6f,
     0x6a, 0x69, 0x6d, 0x69, 0x78, 0x20, 0x1f60a, 0x1f436, 0x60, 0x20,
     0x6216, 0x76f4, 0x63a5, 0x53d1, 0x9001, 0x4e24, 0x4e2a, 0x45, 0x6d, 0x6f,
     0x6a, 0x69]"

definition identical_text :: py_str where
  "identical_text = [
     0x1f605, 0x20, 0x4e24, 0x4e2a, 0x45, 0x6d, 0x6f, 0x6a, 0x69, 0x4e0d,
     0x80fd, 0x76f8, 0x540c, 0x54e6, 0x7e]"

definition not_found_text :: "py_str \<Rightarrow> py_str \<Rightarrow> py_str" where
  "not_found_text emoji1 emoji2 =
     [0x1f61f, 0x20, 0x62b1, 0x6b49, 0xff0c, 0x672a, 0x627e, 0x5230] @ emoji1
     @ [0x548c] @ emoji2
     @ [0x7684, 0x6df7, 0x5408, 0x45, 0x6d, 0x6f, 0x6a, 0x69, 0xa, 0x53ef,
        0x80fd, 0x539f, 0x56e0, 0x3a, 0x20, 0x8fd9, 0x5bf9, 0x7ec4, 0x5408, 0x4e0d,
        0x5b58, 0x5728, 0x20, 0x6216, 0x20, 0x8f93, 0x5165, 0x7684, 0x4e0d, 0x662f,
        0x6807, 0x51c6, 0x45, 0x6d, 0x6f, 0x6a, 0x69]"

definition process_mix_request ::
  "'w env \<Rightarrow> config \<Rightarrow> event \<Rightarrow> py_str list \<Rightarrow> 'w net
     \<Rightarrow> (py_exn + MessageEventResult) \<times> 'w net" where
  "process_mix_request env cfg ev emojis s =
     (if length emojis \<noteq> 2 then (Inr (plain_result usage_text), s)
      else
        (let emoji1 = emojis ! 0; emoji2 = emojis ! 1
         in if emoji1 = emoji2 then (Inr (plain_result identical_text), s)
            else
              (case find_mixed_emoji_url env cfg emoji1 emoji2 s of
                 (Inl e, s') \<Rightarrow> (Inl e, s')
               | (Inr mix_url, s') \<Rightarrow>
                   if py_truthy mix_url then (Inr (image_result (the mix_url)), s')
                   else (Inr (plain_result (not_found_text emoji1 emoji2)), s'))))"

text \<open>The command \<open>/emojimix\<close>.\<close>

definition emoji_mix_handler ::
  "'w env \<Rightarrow> config \<Rightarrow> event \<Rightarrow> 'w net \<Rightarrow> (py_exn + MessageEventResult) \<times> 'w net" where
  "emoji_mix_handler env cfg ev s =
     (let input_text = py_strip (message_str ev);
          emojis = extract_valid_emojis env cfg input_text
      in process_mix_request env cfg ev emojis s)"

text \<open>
  The passive listener. The source awaits \<open>_process_mix_request\<close>, drops the result and
  returns \<open>None\<close> on every path; \<open>None\<close> is the unit value here. An exception of the
  awaited call leaves the function.
\<close>

definition handle_double_emoji_message ::
  "'w env \<Rightarrow> config \<Rightarrow> event \<Rightarrow> 'w net \<Rightarrow> (py_exn + unit) \<times> 'w net" where
  "handle_double_emoji_message env cfg ev s =
     (let message_text = py_strip (message_str ev)
      in if length message_text > 10 then (Inr (), s)
         else
           (let emojis = extract_valid_emojis env cfg message_text
            in if length emojis = 2 then
                 (case process_mix_request env cfg ev emojis s of
                    (Inl e, s') \<Rightarrow> (Inl e, s')
                  | (Inr r, s') \<Rightarrow> (Inr (), s'))
               else (Inr (), s)))"

section \<open>A concrete environment\<close>

text \<open>
  For runs on concrete inputs: a detector that knows the code points of the Emoticons
  block U+1F600 to U+1F64F and the dog face U+1F436, each an emoji of one code point, a set
  that iterates in the order of last insertion, and a world that is the list of the URLs
  that exist (status 200 for these, 404 for every other URL).
\<close>

definition demo_is_emoji :: "py_str \<Rightarrow> bool" where
  "demo_is_emoji s =
     (case s of [c] \<Rightarrow> (0x1F600 \<le> c \<and> c \<le> 0x1F64F) \<or> c = 0x1F436 | s' \<Rightarrow> False)"

fun demo_emoji_list :: "nat \<Rightarrow> py_str \<Rightarrow> emoji_entry list" where
  "demo_emoji_list i [] = []"
| "demo_emoji_list i (c # cs) =
     (if demo_is_emoji [c]
      then \<lparr>match_start = i, match_end = i + 1, emoji = [c]\<rparr> # demo_emoji_list (i + 1) cs
      else demo_emoji_list (i + 1) cs)"

definition demo_env :: "(py_str list) env" where
  "demo_env =
     \<lparr>emoji_list = (\<lambda>text. Inr (demo_emoji_list 0 text)),
      is_emoji = (\<lambda>s. Inr (demo_is_emoji s)),
      set_rank = (\<lambda>inserted x. 0),
      head_request = (\<lambda>timeout url w. (if url \<in> set w then Response 200 else Response 404, w))\<rparr>"

text \<open>The same environment with a detector that raises.\<close>

definition failing_env :: "(py_str list) env" where
  "failing_env = demo_env\<lparr>emoji_list := (\<lambda>text. Inl OtherException)\<rparr>"

definition start :: "'w \<Rightarrow> 'w net" where
  "start w = \<lparr>world = w, probes = []\<rparr>"

section \<open>The probe sequence of the specification\<close>

text \<open>
  The URL that the template of the default configuration yields for a date code and two
  hex codes, and the sequence of candidates for a list of date codes: for each date code in
  the order of the list, the URL of the pair in its original order, then the URL of the
  swapped pair.
\<close>

definition candidate_url :: "py_str \<Rightarrow> py_str \<Rightarrow> py_str \<Rightarrow> py_str" where
  "candidate_url date_code hex1 hex2 =
     ascii ''https://www.gstatic.com/android/keyboard/emojikitchen/'' @ date_code @ ascii ''/''
       @ hex1 @ ascii ''/'' @ hex1 @ ascii ''_'' @ hex2 @ ascii ''.png''"

definition probe_sequence :: "py_str list \<Rightarrow> py_str \<Rightarrow> py_str \<Rightarrow> py_str list" where
  "probe_sequence date_codes hex1 hex2 =
     concat (map (\<lambda>d. [candidate_url d hex1 hex2, candidate_url d hex2 hex1]) date_codes)"

text \<open>
  An outcome after which the search goes on to the next candidate: a status other than
  200, or a request error.
\<close>

fun continues :: "head_outcome \<Rightarrow> bool" where
  "continues (Response status_code) = (status_code \<noteq> 200)"
| "continues (Raises e) = (e = RequestError)"

text \<open>Concrete configurations, worlds and events for runs of the resolver and the handlers.\<close>

definition two_dates_config :: config where
  "two_dates_config =
     (''date_codes'', VList [ascii ''20240204'', ascii ''20250130'']) # load_config"

definition swapped_only_world :: "py_str list" where
  "swapped_only_world = [candidate_url (ascii ''20250130'') (ascii ''u1f436'') (ascii ''u1f60a'')]"

definition first_hit_world :: "py_str list" where
  "first_hit_world = [candidate_url (ascii ''20240204'') (ascii ''u1f60a'') (ascii ''u1f436'')]"

text \<open>
  Three messages with the smiling face U+1F60A and the dog face U+1F436: one followed by
  nine spaces (11 code points, 2 after \<open>strip\<close>), one followed by nine letters (11 code
  points) and one followed by eight letters (10 code points).
\<close>

definition padded_message :: py_str where
  "padded_message =
     [0x1F60A, 0x1F436, 0x20, 0x20, 0x20, 0x20, 0x20, 0x20, 0x20, 0x20, 0x20]"

definition eleven_message :: py_str where
  "eleven_message =
     [0x1F60A, 0x1F436, 0x61, 0x62, 0x63, 0x64, 0x65, 0x66, 0x67, 0x68, 0x69]"

definition ten_message :: py_str where
  "ten_message =
     [0x1F60A, 0x1F436, 0x61, 0x62, 0x63, 0x64, 0x65, 0x66, 0x67, 0x68]"

section \<open>Evaluation on concrete code points\<close>

lemma hex_small: "n < 16 \<Longrightarrow> hex n = [hex_digit n]"
  by (simp add: hex.simps)

lemma hex_large: "\<not> n < 16 \<Longrightarrow> hex n = hex (n div 16) @ [hex_digit (n mod 16)]"
  by (subst hex.simps) simp

lemmas hex_eval = hex_small hex_large hex_digit_def

section \<open>Properties of the Hex Encoder\<close>

lemma filter_selectors_append:
  "set vs \<subseteq> set variation_selectors \<Longrightarrow>
   filter (\<lambda>c. c \<notin> set variation_selectors) (s @ vs) =
   filter (\<lambda>c. c \<notin> set variation_selectors) s"
  by (induction vs) auto

lemma filter_selectors_only:
  "set s \<subseteq> set variation_selectors \<Longrightarrow> filter (\<lambda>c. c \<notin> set variation_selectors) s = []"
  by (induction s) auto

lemma hex_code_selectors_only:
  "set s \<subseteq> set variation_selectors \<Longrightarrow> get_emoji_hex_code s = Some []"
  by (simp add: get_emoji_hex_code_def filter_selectors_only)

text \<open>
  Claim C3. For every string \<open>s\<close> and every sequence \<open>vs\<close> of variation selectors
  (U+FE0E, U+FE0F), the Hex Encoder gives the same output on \<open>s\<close> followed by \<open>vs\<close> as
  on \<open>s\<close> alone.
\<close>

theorem hex_code_ignores_appended_selectors:
  "set vs \<subseteq> {0xFE0E, 0xFE0F} \<Longrightarrow> get_emoji_hex_code (s @ vs) = get_emoji_hex_code s"
proof -
  assume "set vs \<subseteq> {0xFE0E, 0xFE0F}"
  then have "set vs \<subseteq> set variation_selectors"
    by (simp add: variation_selectors_def)
  then show ?thesis
    by (simp add: get_emoji_hex_code_def filter_selectors_append del: filter_append)
qed

theorem hex_code_ignores_appended_selectors_witness:
  "set [0xFE0F, 0xFE0E] \<subseteq> {0xFE0E, 0xFE0F :: nat}
   \<and> get_emoji_hex_code ([0x263A] @ [0xFE0F, 0xFE0E]) = get_emoji_hex_code [0x263A]
   \<and> get_emoji_hex_code [0x263A] = Some (ascii ''u263a'')"
proof -
  have sel: "set [0xFE0F, 0xFE0E] \<subseteq> {0xFE0E, 0xFE0F :: nat}"
    by simp
  have val: "get_emoji_hex_code [0x263A] = Some (ascii ''u263a'')"
    by (simp add: get_emoji_hex_code_def variation_selectors_def ascii_def hex_eval)
  from hex_code_ignores_appended_selectors [OF sel, of "[0x263A]"] sel val show ?thesis
    by simp
qed

section \<open>Properties of the configuration check\<close>

lemma check_required_Inl:
  "check_required cfg keys = Inl e \<longleftrightarrow>
     e = ValueError \<and> (\<exists>k \<in> set keys. map_of cfg k = None)"
  by (induction keys) auto

lemma validate_config_ValueError:
  "validate_config cfg = Inl ValueError \<longleftrightarrow>
     (\<exists>k \<in> {''twemoji_cdn'', ''base_url_template'', ''date_codes''}. map_of cfg k = None)"
  by (auto simp add: validate_config_def config_get_def required_keys_def check_required_Inl
           split: sum.splits option.splits)

lemma validate_config_TypeError:
  "validate_config cfg = Inl TypeError \<longleftrightarrow>
     (\<forall>k \<in> {''twemoji_cdn'', ''base_url_template'', ''date_codes''}. map_of cfg k \<noteq> None)
     \<and> (\<exists>v. map_of cfg ''date_codes'' = Some v \<and> \<not> isinstance_list v)"
  by (auto simp add: validate_config_def config_get_def required_keys_def check_required_Inl
           split: sum.splits option.splits)

lemma validate_config_raises:
  "validate_config cfg = Inl e \<Longrightarrow> e = ValueError \<or> e = TypeError"
  by (auto simp add: validate_config_def config_get_def required_keys_def check_required_Inl
           split: sum.splits option.splits if_splits)

lemma isinstance_list_iff: "isinstance_list v \<longleftrightarrow> (\<exists>xs. v = VList xs)"
  by (cases v) auto

lemma validate_load_config: "validate_config load_config = Inr ()"
  by (simp add: validate_config_def load_config_def default_config_def required_keys_def
        config_get_def)

text \<open>
  Claim C7. Validation of a configuration raises if and only if one of the keys
  \<open>twemoji_cdn\<close>, \<open>base_url_template\<close>, \<open>date_codes\<close> is missing or the value of
  \<open>date_codes\<close> is not a list; initialization, which validates the built-in default
  configuration, succeeds.
\<close>

theorem init_raises_iff:
  "((\<exists>e. validate_config cfg = Inl e) \<longleftrightarrow>
      (\<exists>k \<in> {''twemoji_cdn'', ''base_url_template'', ''date_codes''}. map_of cfg k = None)
      \<or> (\<exists>v. map_of cfg ''date_codes'' = Some v \<and> (\<forall>xs. v \<noteq> VList xs)))
   \<and> plugin_init = Inr load_config"
proof -
  have "(\<exists>e. validate_config cfg = Inl e) \<longleftrightarrow>
          validate_config cfg = Inl ValueError \<or> validate_config cfg = Inl TypeError"
    using validate_config_raises by blast
  also have "\<dots> \<longleftrightarrow>
      (\<exists>k \<in> {''twemoji_cdn'', ''base_url_template'', ''date_codes''}. map_of cfg k = None)
      \<or> (\<exists>v. map_of cfg ''date_codes'' = Some v \<and> (\<forall>xs. v \<noteq> VList xs))"
    unfolding validate_config_ValueError validate_config_TypeError isinstance_list_iff
    by auto
  finally have raises: "(\<exists>e. validate_config cfg = Inl e) \<longleftrightarrow>
      (\<exists>k \<in> {''twemoji_cdn'', ''base_url_template'', ''date_codes''}. map_of cfg k = None)
      \<or> (\<exists>v. map_of cfg ''date_codes'' = Some v \<and> (\<forall>xs. v \<noteq> VList xs))" .
  have default: "plugin_init = Inr load_config"
    by (simp add: plugin_init_def validate_load_config)
  from raises default show ?thesis by blast
qed

theorem init_raises_iff_witness:
  "(\<exists>e. validate_config [(''twemoji_cdn'', VStr []), (''base_url_template'', VStr [])] = Inl e)
   \<and> (\<exists>e. validate_config
          [(''twemoji_cdn'', VStr []), (''base_url_template'', VStr []),
           (''date_codes'', VStr (ascii ''20240204''))] = Inl e)
   \<and> \<not> (\<exists>e. validate_config
          [(''twemoji_cdn'', VStr []), (''base_url_template'', VStr []),
           (''date_codes'', VList [ascii ''20240204''])] = Inl e)
   \<and> plugin_init = Inr load_config"
  using init_raises_iff [of "[(''twemoji_cdn'', VStr []), (''base_url_template'', VStr [])]"]
        init_raises_iff [of "[(''twemoji_cdn'', VStr []), (''base_url_template'', VStr []),
           (''date_codes'', VStr (ascii ''20240204''))]"]
        init_raises_iff [of "[(''twemoji_cdn'', VStr []), (''base_url_template'', VStr []),
           (''date_codes'', VList [ascii ''20240204''])]"]
  by simp

section \<open>Properties of the Emoji Extractor\<close>

lemma set_to_list_distinct: "distinct (set_to_list env xs)"
  by (simp add: set_to_list_def)

lemma py_slice_to_distinct: "distinct xs \<Longrightarrow> distinct (py_slice_to n xs)"
  by (simp add: py_slice_to_def)

lemma py_slice_to_length: "0 \<le> n \<Longrightarrow> length (py_slice_to n xs) \<le> nat n"
  by (simp add: py_slice_to_def)

lemma extract_distinct: "distinct (extract_valid_emojis env cfg msg)"
  by (auto simp add: extract_valid_emojis_def Let_def set_to_list_distinct py_slice_to_distinct
           split: sum.splits py_value.splits)

lemma extract_length:
  "config_get cfg ''max_emoji_length'' = Inr (VInt n) \<Longrightarrow> 0 \<le> n \<Longrightarrow>
   length (extract_valid_emojis env cfg msg) \<le> nat n"
  by (auto simp add: extract_valid_emojis_def Let_def py_slice_to_length
           split: sum.splits py_value.splits)

lemma load_config_max: "config_get load_config ''max_emoji_length'' = Inr (VInt 2)"
  by (simp add: config_get_def load_config_def default_config_def)

lemma demo_extract_four:
  "extract_valid_emojis demo_env load_config [0x1F60A, 0x1F436, 0x1F60A, 0x1F600]
     = [[0x1F436], [0x1F60A]]"
  by (simp add: extract_valid_emojis_def demo_env_def demo_is_emoji_def
        set_to_list_def config_get_def load_config_def default_config_def py_slice_to_def)

text \<open>
  Claim C8. For every text the Emoji Extractor, under the plugin's configuration, returns
  at most 2 emoji, all distinct; and under any configuration whose maximum count is a
  non-negative integer \<open>n\<close> it returns at most \<open>n\<close> emoji, all distinct.
\<close>

theorem extract_at_most_two_distinct:
  "distinct (extract_valid_emojis env load_config msg)
   \<and> length (extract_valid_emojis env load_config msg) \<le> 2
   \<and> (config_get cfg ''max_emoji_length'' = Inr (VInt n) \<and> 0 \<le> n \<longrightarrow>
        distinct (extract_valid_emojis env cfg msg)
        \<and> length (extract_valid_emojis env cfg msg) \<le> nat n)"
  using extract_distinct [of env load_config msg] extract_distinct [of env cfg msg]
        extract_length [OF load_config_max, of env msg] extract_length [of cfg n env msg]
  by simp

theorem extract_at_most_two_distinct_witness:
  "config_get load_config ''max_emoji_length'' = Inr (VInt 2) \<and> (0::int) \<le> 2
   \<and> extract_valid_emojis demo_env load_config [0x1F60A, 0x1F436, 0x1F60A, 0x1F600]
       = [[0x1F436], [0x1F60A]]
   \<and> distinct (extract_valid_emojis demo_env load_config [0x1F60A, 0x1F436, 0x1F60A, 0x1F600])
   \<and> length (extract_valid_emojis demo_env load_config [0x1F60A, 0x1F436, 0x1F60A, 0x1F600])
       \<le> nat 2"
  using extract_at_most_two_distinct
          [of demo_env "[0x1F60A, 0x1F436, 0x1F60A, 0x1F600]" load_config 2]
        load_config_max demo_extract_four
  by simp

lemma collect_valid_raises:
  "x \<in> set es \<Longrightarrow> is_emoji env (emoji x) = Inl e \<Longrightarrow> \<exists>e'. collect_valid env es = Inl e'"
  by (induction es) (auto split: sum.splits)

text \<open>
  Claim C9. If the detector raises on a text, in \<open>emoji_list\<close> or in \<open>is_emoji\<close> on one of
  the entries found, the Emoji Extractor returns the empty list.
\<close>

theorem extract_absorbs_detector_failure:
  assumes "emoji_list env msg = Inl e
           \<or> (\<exists>es x. emoji_list env msg = Inr es \<and> x \<in> set es \<and> is_emoji env (emoji x) = Inl e)"
  shows "extract_valid_emojis env cfg msg = []"
  using assms collect_valid_raises [of _ _ env e]
  by (fastforce simp add: extract_valid_emojis_def split: sum.splits)

theorem extract_absorbs_detector_failure_witness:
  "emoji_list failing_env [0x1F60A, 0x1F436] = Inl OtherException
   \<and> extract_valid_emojis failing_env load_config [0x1F60A, 0x1F436] = []"
proof -
  have raised: "emoji_list failing_env [0x1F60A, 0x1F436] = Inl OtherException"
    by (simp add: failing_env_def)
  from extract_absorbs_detector_failure
         [of failing_env "[0x1F60A, 0x1F436]" OtherException load_config] raised
  show ?thesis by simp
qed

section \<open>Properties of the Composite URL Resolver\<close>

lemma format_default_template:
  "py_format (ascii
       ''https://www.gstatic.com/android/keyboard/emojikitchen/{date_code}/{hex1}/{hex1}_{hex2}.png'')
      [(ascii ''date_code'', d), (ascii ''hex1'', a), (ascii ''hex2'', b)]
   = Inr (candidate_url d a b)"
  by (simp add: py_format_def candidate_url_def ascii_def lbrace_def rbrace_def)

lemma load_config_template:
  "config_get load_config ''base_url_template'' = Inr (VStr (ascii
       ''https://www.gstatic.com/android/keyboard/emojikitchen/{date_code}/{hex1}/{hex1}_{hex2}.png''))"
  by (simp add: config_get_def load_config_def default_config_def)

lemma client_head_log:
  "client_head env t url s = (out, s') \<Longrightarrow> probes s' = probes s @ [(url, out)]"
  by (auto simp add: client_head_def split: prod.splits)

lemma probe_urls_append:
  "probe_urls env t (xs @ ys) s =
     (case probe_urls env t xs s of
        (Inr None, s') \<Rightarrow> probe_urls env t ys s'
      | (r, s') \<Rightarrow> (r, s'))"
  by (induction xs arbitrary: s)
     (auto split: prod.splits head_outcome.splits sum.splits option.splits)

lemma url_candidates_default:
  assumes "config_get cfg ''base_url_template'' = config_get load_config ''base_url_template''"
    and "e1 \<noteq> e2"
  shows "url_candidates cfg e1 e2 h1 h2 d = Inr [candidate_url d h1 h2, candidate_url d h2 h1]"
  using assms
  by (simp add: url_candidates_def format_url_def load_config_template format_default_template)

text \<open>The two nested loops visit the candidates as one loop over the probe sequence does.\<close>

lemma probe_dates_flat:
  assumes "config_get cfg ''base_url_template'' = config_get load_config ''base_url_template''"
    and "e1 \<noteq> e2"
  shows "probe_dates env cfg t e1 e2 h1 h2 ds s = probe_urls env t (probe_sequence ds h1 h2) s"
proof (induction ds arbitrary: s)
  case Nil
  show ?case by (simp add: probe_sequence_def)
next
  case (Cons d ds)
  have seq: "probe_sequence (d # ds) h1 h2
               = [candidate_url d h1 h2, candidate_url d h2 h1] @ probe_sequence ds h1 h2"
    by (simp add: probe_sequence_def)
  show ?case
    unfolding seq probe_urls_append
    by (simp add: url_candidates_default [OF assms] Cons.IH
             split: prod.splits sum.splits option.splits)
qed

text \<open>
  What a run of the inner loop leaves in the log: a prefix of the candidates, none but the
  last stopping the search, and a last entry that accounts for the result.
\<close>

lemma probe_urls_trace:
  "probe_urls env t urls s = (r, s') \<Longrightarrow>
   \<exists>log. probes s' = probes s @ log
     \<and> map fst log = take (length log) urls
     \<and> (\<forall>p \<in> set (butlast log). continues (snd p))
     \<and> (case r of
          Inr (Some url) \<Rightarrow> log \<noteq> [] \<and> last log = (url, Response 200)
        | Inr None \<Rightarrow> length log = length urls \<and> (\<forall>p \<in> set log. continues (snd p))
        | Inl e \<Rightarrow> log \<noteq> [] \<and> snd (last log) = Raises e \<and> e \<noteq> RequestError)"
proof (induction urls arbitrary: s)
  case Nil
  then show ?case by auto
next
  case (Cons url urls)
  obtain out s1 where head: "client_head env t url s = (out, s1)"
    by (cases "client_head env t url s")
  have log1: "probes s1 = probes s @ [(url, out)]"
    using head by (rule client_head_log)
  show ?case
  proof (cases "continues out")
    case True
    then have "probe_urls env t urls s1 = (r, s')"
      using Cons.prems head by (cases out) (auto split: if_splits)
    from Cons.IH [OF this] obtain log where
      l: "probes s' = probes s1 @ log" "map fst log = take (length log) urls"
         "\<forall>p \<in> set (butlast log). continues (snd p)"
         "case r of
            Inr (Some url) \<Rightarrow> log \<noteq> [] \<and> last log = (url, Response 200)
          | Inr None \<Rightarrow> length log = length urls \<and> (\<forall>p \<in> set log. continues (snd p))
          | Inl e \<Rightarrow> log \<noteq> [] \<and> snd (last log) = Raises e \<and> e \<noteq> RequestError"
      by blast
    have "probes s' = probes s @ ((url, out) # log)"
      using l(1) log1 by simp
    moreover have "map fst ((url, out) # log) = take (length ((url, out) # log)) (url # urls)"
      using l(2) by simp
    moreover have "\<forall>p \<in> set (butlast ((url, out) # log)). continues (snd p)"
      using l(3) True by auto
    moreover have "case r of
            Inr (Some u) \<Rightarrow> (url, out) # log \<noteq> [] \<and> last ((url, out) # log) = (u, Response 200)
          | Inr None \<Rightarrow> length ((url, out) # log) = length (url # urls)
                         \<and> (\<forall>p \<in> set ((url, out) # log). continues (snd p))
          | Inl e \<Rightarrow> (url, out) # log \<noteq> [] \<and> snd (last ((url, out) # log)) = Raises e
                         \<and> e \<noteq> RequestError"
      using l(4) True by (auto split: sum.splits option.splits)
    ultimately show ?thesis by blast
  next
    case False
    then have stop: "s' = s1 \<and> (case out of Response c \<Rightarrow> c = 200 \<and> r = Inr (Some url)
                                   | Raises e \<Rightarrow> e \<noteq> RequestError \<and> r = Inl e)"
      using Cons.prems head by (cases out) (auto split: if_splits)
    have "probes s' = probes s @ [(url, out)]"
      using stop log1 by simp
    moreover have "map fst [(url, out)] = take (length [(url, out)]) (url # urls)"
      by simp
    moreover have "\<forall>p \<in> set (butlast [(url, out)]). continues (snd p)"
      by simp
    moreover have "case r of
            Inr (Some u) \<Rightarrow> [(url, out)] \<noteq> [] \<and> last [(url, out)] = (u, Response 200)
          | Inr None \<Rightarrow> length [(url, out)] = length (url # urls)
                         \<and> (\<forall>p \<in> set [(url, out)]. continues (snd p))
          | Inl e \<Rightarrow> [(url, out)] \<noteq> [] \<and> snd (last [(url, out)]) = Raises e
                         \<and> e \<noteq> RequestError"
      using stop by (cases out) auto
    ultimately show ?thesis by blast
  qed
qed

lemma find_mixed_emoji_url_flat:
  assumes "config_get cfg ''request_timeout'' = Inr t"
    and "config_get cfg ''date_codes'' = Inr (VList ds)"
    and "config_get cfg ''base_url_template'' = config_get load_config ''base_url_template''"
    and "e1 \<noteq> e2"
    and "get_emoji_hex_code e1 = Some h1" and "h1 \<noteq> []"
    and "get_emoji_hex_code e2 = Some h2" and "h2 \<noteq> []"
  shows "find_mixed_emoji_url env cfg e1 e2 s = probe_urls env t (probe_sequence ds h1 h2) s"
  using assms
  by (simp add: find_mixed_emoji_url_def find_with_hex_codes_def probe_dates_flat)

lemma find_with_hex_codes_falsy:
  "\<not> py_truthy h1 \<or> \<not> py_truthy h2 \<Longrightarrow>
   find_with_hex_codes env cfg e1 e2 h1 h2 s = (Inr None, s)"
  by (auto simp add: find_with_hex_codes_def)

lemma find_mixed_emoji_url_falsy:
  "\<not> py_truthy (get_emoji_hex_code e1) \<or> \<not> py_truthy (get_emoji_hex_code e2) \<Longrightarrow>
   find_mixed_emoji_url env cfg e1 e2 s = (Inr None, s)"
  by (simp add: find_mixed_emoji_url_def find_with_hex_codes_falsy)

lemma hex_1f60a: "get_emoji_hex_code [0x1F60A] = Some (ascii ''u1f60a'')"
  by (simp add: get_emoji_hex_code_def variation_selectors_def ascii_def hex_eval)

lemma hex_1f436: "get_emoji_hex_code [0x1F436] = Some (ascii ''u1f436'')"
  by (simp add: get_emoji_hex_code_def variation_selectors_def ascii_def hex_eval)

lemma load_config_timeout:
  "config_get load_config ''request_timeout'' = Inr (VFloat 3)"
  by (simp add: config_get_def load_config_def default_config_def)

lemma load_config_dates:
  "\<exists>ds. config_get load_config ''date_codes'' = Inr (VList (ascii ''20240204'' # ds))"
  by (simp add: config_get_def load_config_def default_config_def)

lemma two_dates_config_lookups:
  "config_get two_dates_config ''request_timeout'' = Inr (VFloat 3)"
  "config_get two_dates_config ''date_codes''
     = Inr (VList [ascii ''20240204'', ascii ''20250130''])"
  "config_get two_dates_config ''base_url_template''
     = config_get load_config ''base_url_template''"
  by (simp_all add: two_dates_config_def config_get_def load_config_def default_config_def)

lemma demo_head_request:
  "client_head demo_env t url s =
     (if url \<in> set (world s) then Response 200 else Response 404,
      \<lparr>world = world s,
       probes = probes s @ [(url, if url \<in> set (world s) then Response 200 else Response 404)]\<rparr>)"
  by (simp add: client_head_def demo_env_def)

text \<open>
  A run on two date codes where only the swapped URL of the second date exists: four
  probes, the last one successful.
\<close>

lemma two_dates_run:
  "find_mixed_emoji_url demo_env two_dates_config [0x1F60A] [0x1F436] (start swapped_only_world)
   = (Inr (Some (candidate_url (ascii ''20250130'') (ascii ''u1f436'') (ascii ''u1f60a''))),
      \<lparr>world = swapped_only_world,
       probes =
         [(candidate_url (ascii ''20240204'') (ascii ''u1f60a'') (ascii ''u1f436''), Response 404),
          (candidate_url (ascii ''20240204'') (ascii ''u1f436'') (ascii ''u1f60a''), Response 404),
          (candidate_url (ascii ''20250130'') (ascii ''u1f60a'') (ascii ''u1f436''), Response 404),
          (candidate_url (ascii ''20250130'') (ascii ''u1f436'') (ascii ''u1f60a''), Response 200)]\<rparr>)"
proof -
  have flat:
    "find_mixed_emoji_url demo_env two_dates_config [0x1F60A] [0x1F436] (start swapped_only_world)
     = probe_urls demo_env (VFloat 3)
         (probe_sequence [ascii ''20240204'', ascii ''20250130''] (ascii ''u1f60a'') (ascii ''u1f436''))
         (start swapped_only_world)"
    by (rule find_mixed_emoji_url_flat [OF two_dates_config_lookups _ hex_1f60a _ hex_1f436])
       (simp_all add: ascii_def)
  show ?thesis
    unfolding flat
    by (simp add: probe_sequence_def demo_head_request start_def swapped_only_world_def
          candidate_url_def ascii_def)
qed

text \<open>A run on the default configuration where the first candidate exists: one probe.\<close>

lemma first_hit_run:
  "find_mixed_emoji_url demo_env load_config [0x1F60A] [0x1F436] (start first_hit_world)
   = (Inr (Some (candidate_url (ascii ''20240204'') (ascii ''u1f60a'') (ascii ''u1f436''))),
      \<lparr>world = first_hit_world,
       probes =
         [(candidate_url (ascii ''20240204'') (ascii ''u1f60a'') (ascii ''u1f436''),
           Response 200)]\<rparr>)"
proof -
  obtain ds where
    ds: "config_get load_config ''date_codes'' = Inr (VList (ascii ''20240204'' # ds))"
    using load_config_dates by blast
  have flat:
    "find_mixed_emoji_url demo_env load_config [0x1F60A] [0x1F436] (start first_hit_world)
     = probe_urls demo_env (VFloat 3)
         (probe_sequence (ascii ''20240204'' # ds) (ascii ''u1f60a'') (ascii ''u1f436''))
         (start first_hit_world)"
    by (rule find_mixed_emoji_url_flat [OF load_config_timeout ds _ _ hex_1f60a _ hex_1f436])
       (simp_all add: ascii_def)
  show ?thesis
    unfolding flat
    by (simp add: probe_sequence_def demo_head_request start_def first_hit_world_def)
qed

text \<open>
  Claim C2. Let the configuration have the default URL template, a timeout and the list
  \<open>ds\<close> of date codes, and let two distinct emoji have the non-empty hex codes \<open>h1\<close> and
  \<open>h2\<close>. The probes that a run of the resolver adds to the log are a prefix of the probe
  sequence: for each date code of \<open>ds\<close> in order, the URL with \<open>h1_h2\<close>, then the URL with
  \<open>h2_h1\<close>. No probe before the last one reported status 200. If the run returns a URL,
  the last probe is this URL with status 200; if it returns not-found, all \<open>2 * length ds\<close>
  candidates were probed and none reported status 200; if it raises, the last probe raised
  an exception other than a request error.
\<close>

theorem resolver_probe_order:
  assumes "config_get cfg ''request_timeout'' = Inr t"
    and "config_get cfg ''date_codes'' = Inr (VList ds)"
    and "config_get cfg ''base_url_template'' = config_get load_config ''base_url_template''"
    and "e1 \<noteq> e2"
    and "get_emoji_hex_code e1 = Some h1" and "h1 \<noteq> []"
    and "get_emoji_hex_code e2 = Some h2" and "h2 \<noteq> []"
    and "find_mixed_emoji_url env cfg e1 e2 s = (r, s')"
  shows "\<exists>log. probes s' = probes s @ log
     \<and> map fst log = take (length log) (probe_sequence ds h1 h2)
     \<and> (\<forall>p \<in> set (butlast log). continues (snd p))
     \<and> (case r of
          Inr (Some url) \<Rightarrow> log \<noteq> [] \<and> last log = (url, Response 200)
        | Inr None \<Rightarrow> length log = 2 * length ds \<and> (\<forall>p \<in> set log. continues (snd p))
        | Inl e \<Rightarrow> log \<noteq> [] \<and> snd (last log) = Raises e \<and> e \<noteq> RequestError)"
proof -
  have len: "length (probe_sequence ds h1 h2) = 2 * length ds"
    by (induction ds) (simp_all add: probe_sequence_def)
  have "probe_urls env t (probe_sequence ds h1 h2) s = (r, s')"
    using assms by (simp add: find_mixed_emoji_url_flat)
  from probe_urls_trace [OF this] show ?thesis
    unfolding len .
qed

theorem resolver_probe_order_witness:
  "config_get two_dates_config ''request_timeout'' = Inr (VFloat 3)
   \<and> config_get two_dates_config ''date_codes''
       = Inr (VList [ascii ''20240204'', ascii ''20250130''])
   \<and> config_get two_dates_config ''base_url_template''
       = config_get load_config ''base_url_template''
   \<and> [0x1F60A] \<noteq> [0x1F436 :: nat]
   \<and> get_emoji_hex_code [0x1F60A] = Some (ascii ''u1f60a'') \<and> ascii ''u1f60a'' \<noteq> []
   \<and> get_emoji_hex_code [0x1F436] = Some (ascii ''u1f436'') \<and> ascii ''u1f436'' \<noteq> []
   \<and> find_mixed_emoji_url demo_env two_dates_config [0x1F60A] [0x1F436]
        (start swapped_only_world)
       = (Inr (Some (candidate_url (ascii ''20250130'') (ascii ''u1f436'') (ascii ''u1f60a''))),
          \<lparr>world = swapped_only_world,
           probes =
             [(candidate_url (ascii ''20240204'') (ascii ''u1f60a'') (ascii ''u1f436''), Response 404),
              (candidate_url (ascii ''20240204'') (ascii ''u1f436'') (ascii ''u1f60a''), Response 404),
              (candidate_url (ascii ''20250130'') (ascii ''u1f60a'') (ascii ''u1f436''), Response 404),
              (candidate_url (ascii ''20250130'') (ascii ''u1f436'') (ascii ''u1f60a''),
               Response 200)]\<rparr>)
   \<and> (\<exists>log.
         [(candidate_url (ascii ''20240204'') (ascii ''u1f60a'') (ascii ''u1f436''), Response 404),
          (candidate_url (ascii ''20240204'') (ascii ''u1f436'') (ascii ''u1f60a''), Response 404),
          (candidate_url (ascii ''20250130'') (ascii ''u1f60a'') (ascii ''u1f436''), Response 404),
          (candidate_url (ascii ''20250130'') (ascii ''u1f436'') (ascii ''u1f60a''), Response 200)]
           = probes (start swapped_only_world) @ log
       \<and> map fst log
           = take (length log)
               (probe_sequence [ascii ''20240204'', ascii ''20250130'']
                  (ascii ''u1f60a'') (ascii ''u1f436''))
       \<and> (\<forall>p \<in> set (butlast log). continues (snd p))
       \<and> log \<noteq> []
       \<and> last log
           = (candidate_url (ascii ''20250130'') (ascii ''u1f436'') (ascii ''u1f60a''),
              Response 200))"
proof -
  have ne: "[0x1F60A] \<noteq> [0x1F436 :: nat]"
    by simp
  have ne1: "ascii ''u1f60a'' \<noteq> []" and ne2: "ascii ''u1f436'' \<noteq> []"
    by (simp_all add: ascii_def)
  note order =
    resolver_probe_order
      [OF two_dates_config_lookups ne hex_1f60a ne1 hex_1f436 ne2 two_dates_run]
  have "\<exists>log.
         [(candidate_url (ascii ''20240204'') (ascii ''u1f60a'') (ascii ''u1f436''), Response 404),
          (candidate_url (ascii ''20240204'') (ascii ''u1f436'') (ascii ''u1f60a''), Response 404),
          (candidate_url (ascii ''20250130'') (ascii ''u1f60a'') (ascii ''u1f436''), Response 404),
          (candidate_url (ascii ''20250130'') (ascii ''u1f436'') (ascii ''u1f60a''), Response 200)]
           = probes (start swapped_only_world) @ log
       \<and> map fst log
           = take (length log)
               (probe_sequence [ascii ''20240204'', ascii ''20250130'']
                  (ascii ''u1f60a'') (ascii ''u1f436''))
       \<and> (\<forall>p \<in> set (butlast log). continues (snd p))
       \<and> log \<noteq> []
       \<and> last log
           = (candidate_url (ascii ''20250130'') (ascii ''u1f436'') (ascii ''u1f60a''),
              Response 200)"
    using order by simp
  with two_dates_config_lookups ne hex_1f60a ne1 hex_1f436 ne2 two_dates_run
  show ?thesis by blast
qed

text \<open>
  Claim C6. If the Hex Encoder fails on either emoji, the resolver returns not-found and
  leaves the state as it was, so no probe is added to the log. A failure is a result
  that the resolver's check takes as false: \<open>None\<close>, which the encoder returns from its
  exception handler, or the empty string. The first part is about the body of the
  resolver for arbitrary encoder results, the second about the resolver itself.
\<close>

theorem resolver_aborts_on_encoding_failure:
  "(\<not> py_truthy emoji1_hex \<or> \<not> py_truthy emoji2_hex \<longrightarrow>
      find_with_hex_codes env cfg emoji1 emoji2 emoji1_hex emoji2_hex s = (Inr None, s))
   \<and> (\<not> py_truthy (get_emoji_hex_code emoji1) \<or> \<not> py_truthy (get_emoji_hex_code emoji2) \<longrightarrow>
      find_mixed_emoji_url env cfg emoji1 emoji2 s = (Inr None, s)
      \<and> probes (snd (find_mixed_emoji_url env cfg emoji1 emoji2 s)) = probes s)"
  by (simp add: find_mixed_emoji_url_falsy find_with_hex_codes_falsy)

theorem resolver_aborts_on_encoding_failure_witness:
  "\<not> py_truthy None
   \<and> find_with_hex_codes demo_env load_config [0xFE0E] [0x1F436] None (Some (ascii ''u1f436''))
        (start first_hit_world) = (Inr None, start first_hit_world)
   \<and> \<not> py_truthy (get_emoji_hex_code [0xFE0E])
   \<and> find_mixed_emoji_url demo_env load_config [0xFE0E] [0x1F436] (start first_hit_world)
       = (Inr None, start first_hit_world)
   \<and> probes (start first_hit_world) = []"
proof -
  have failed: "\<not> py_truthy (get_emoji_hex_code [0xFE0E])"
    by (simp add: get_emoji_hex_code_def variation_selectors_def)
  from resolver_aborts_on_encoding_failure
         [of None "Some (ascii ''u1f436'')" demo_env load_config "[0xFE0E]" "[0x1F436]"
             "start first_hit_world"]
       failed
  show ?thesis by (simp add: start_def)
qed

text \<open>
  Claim C10. On a string that consists of variation selectors only, the Hex Encoder
  returns the empty string (not \<open>None\<close>), and the resolver with such a string as its first
  or its second argument returns not-found and leaves the state as it was: no probe is
  added to the log.
\<close>

theorem selectors_only_is_encoding_failure:
  assumes "set sel \<subseteq> {0xFE0E, 0xFE0F}"
  shows "get_emoji_hex_code sel = Some []
     \<and> find_mixed_emoji_url env cfg sel other s = (Inr None, s)
     \<and> find_mixed_emoji_url env cfg other sel s = (Inr None, s)"
proof -
  from assms have "set sel \<subseteq> set variation_selectors"
    by (simp add: variation_selectors_def)
  then have empty: "get_emoji_hex_code sel = Some []"
    by (rule hex_code_selectors_only)
  then have "\<not> py_truthy (get_emoji_hex_code sel)"
    by simp
  then show ?thesis
    using empty by (simp add: find_mixed_emoji_url_falsy)
qed

theorem selectors_only_is_encoding_failure_witness:
  "set [0xFE0F, 0xFE0E, 0xFE0F] \<subseteq> {0xFE0E, 0xFE0F :: nat}
   \<and> get_emoji_hex_code [0xFE0F, 0xFE0E, 0xFE0F] = Some []
   \<and> find_mixed_emoji_url demo_env load_config [0xFE0F, 0xFE0E, 0xFE0F] [0x1F60A]
        (start first_hit_world) = (Inr None, start first_hit_world)
   \<and> find_mixed_emoji_url demo_env load_config [0x1F60A] [0xFE0F, 0xFE0E, 0xFE0F]
        (start first_hit_world) = (Inr None, start first_hit_world)"
proof -
  have sel: "set [0xFE0F, 0xFE0E, 0xFE0F] \<subseteq> {0xFE0E, 0xFE0F :: nat}"
    by simp
  from selectors_only_is_encoding_failure
         [OF sel, of demo_env load_config "[0x1F60A]" "start first_hit_world"] sel
  show ?thesis by simp
qed

section \<open>Properties of the Request Handler\<close>

text \<open>
  Claim C4. Given a list of exactly two identical emoji, the Request Handler answers with
  the plain text that the two emoji cannot be identical, for every event, and leaves the
  state as it was: no probe is added to the log.
\<close>

theorem identical_pair_rejected:
  "process_mix_request env cfg ev [e, e] s = (Inr (plain_result identical_text), s)
   \<and> probes (snd (process_mix_request env cfg ev [e, e] s)) = probes s"
  by (simp add: process_mix_request_def)

theorem identical_pair_rejected_witness:
  "process_mix_request demo_env load_config \<lparr>message_str = [0x1F60A, 0x1F60A]\<rparr>
      [[0x1F60A], [0x1F60A]] (start first_hit_world)
     = (Inr (plain_result identical_text), start first_hit_world)
   \<and> probes (start first_hit_world) = []"
  using identical_pair_rejected
          [of demo_env load_config "\<lparr>message_str = [0x1F60A, 0x1F60A]\<rparr>" "[0x1F60A]"
              "start first_hit_world"]
  by (simp add: start_def)

lemma strip_two_smileys: "py_strip [0x1F60A, 0x1F60A] = [0x1F60A, 0x1F60A]"
  by (simp add: py_strip_def py_isspace_def)

text \<open>
  Claim C1, as the code has it. The text of two smiling faces U+1F60A, in which the
  detector finds two occurrences of this one emoji, makes the command handler answer with
  the usage hint, since the extractor keeps one emoji of the two equal ones; the state is
  left as it was, so no probe is issued.
\<close>

theorem command_on_repeated_emoji:
  assumes "emoji_list env [0x1F60A, 0x1F60A] =
             Inr [\<lparr>match_start = 0, match_end = 1, emoji = [0x1F60A]\<rparr>,
                  \<lparr>match_start = 1, match_end = 2, emoji = [0x1F60A]\<rparr>]"
    and "is_emoji env [0x1F60A] = Inr True"
  shows "emoji_mix_handler env load_config \<lparr>message_str = [0x1F60A, 0x1F60A]\<rparr> s
           = (Inr (plain_result usage_text), s)
     \<and> probes (snd (emoji_mix_handler env load_config \<lparr>message_str = [0x1F60A, 0x1F60A]\<rparr> s))
           = probes s"
  using assms
  by (simp add: emoji_mix_handler_def strip_two_smileys extract_valid_emojis_def
        set_to_list_def load_config_max py_slice_to_def process_mix_request_def)

theorem command_on_repeated_emoji_witness:
  "emoji_list demo_env [0x1F60A, 0x1F60A] =
             Inr [\<lparr>match_start = 0, match_end = 1, emoji = [0x1F60A]\<rparr>,
                  \<lparr>match_start = 1, match_end = 2, emoji = [0x1F60A]\<rparr>]
   \<and> is_emoji demo_env [0x1F60A] = Inr True
   \<and> emoji_mix_handler demo_env load_config \<lparr>message_str = [0x1F60A, 0x1F60A]\<rparr>
        (start first_hit_world)
       = (Inr (plain_result usage_text), start first_hit_world)"
proof -
  have found: "emoji_list demo_env [0x1F60A, 0x1F60A] =
             Inr [\<lparr>match_start = 0, match_end = 1, emoji = [0x1F60A]\<rparr>,
                  \<lparr>match_start = 1, match_end = 2, emoji = [0x1F60A]\<rparr>]"
    by (simp add: demo_env_def demo_is_emoji_def)
  have valid: "is_emoji demo_env [0x1F60A] = Inr True"
    by (simp add: demo_env_def demo_is_emoji_def)
  from command_on_repeated_emoji [OF found valid, of "start first_hit_world"] found valid
  show ?thesis by simp
qed

text \<open>
  The claim as stated fails: on the text of two smiling faces the command handler does
  not answer with the text that the two emoji cannot be identical.
\<close>

theorem command_on_repeated_emoji_counterexample:
  "fst (emoji_mix_handler demo_env load_config \<lparr>message_str = [0x1F60A, 0x1F60A]\<rparr>
          (start first_hit_world))
     \<noteq> Inr (plain_result identical_text)"
  by (simp add: emoji_mix_handler_def strip_two_smileys extract_valid_emojis_def
        demo_env_def demo_is_emoji_def set_to_list_def load_config_max py_slice_to_def
        process_mix_request_def usage_text_def identical_text_def)

lemma collect_valid_filter:
  "\<forall>x \<in> set es. \<exists>ok. is_emoji env (emoji x) = Inr ok \<Longrightarrow>
   collect_valid env es
     = Inr (map emoji (filter (\<lambda>x. is_emoji env (emoji x) = Inr True) es))"
  by (induction es) auto

lemma two_element_list:
  assumes "distinct xs" and "set xs = {a, b}" and "a \<noteq> b"
  shows "xs = [a, b] \<or> xs = [b, a]"
proof -
  have "length xs = 2"
    using assms distinct_card [of xs] by simp
  then obtain x y where xs: "xs = [x, y]"
    by (cases xs; cases "tl xs") auto
  with assms show ?thesis by (auto simp add: doubleton_eq_iff)
qed

lemma extract_two:
  assumes "emoji_list env m = Inr es"
    and "\<forall>x \<in> set es. \<exists>ok. is_emoji env (emoji x) = Inr ok"
    and "emoji ` {x \<in> set es. is_emoji env (emoji x) = Inr True} = {e1, e2}" and "e1 \<noteq> e2"
  shows "extract_valid_emojis env load_config m = [e1, e2]
       \<or> extract_valid_emojis env load_config m = [e2, e1]"
proof -
  let ?inserted = "map emoji (filter (\<lambda>x. is_emoji env (emoji x) = Inr True) es)"
  have "distinct (set_to_list env ?inserted)"
    by (rule set_to_list_distinct)
  moreover have "set (set_to_list env ?inserted) = {e1, e2}"
    using assms(3) by (simp add: set_to_list_def)
  ultimately have
    "set_to_list env ?inserted = [e1, e2] \<or> set_to_list env ?inserted = [e2, e1]"
    using assms(4) by (rule two_element_list)
  moreover have "extract_valid_emojis env load_config m
                   = py_slice_to 2 (set_to_list env ?inserted)"
    using assms(1) collect_valid_filter [OF assms(2)]
    by (simp add: extract_valid_emojis_def load_config_max)
  ultimately show ?thesis
    by (auto simp add: py_slice_to_def)
qed

lemma listener_skips_long:
  "length (py_strip (message_str ev)) > 10 \<Longrightarrow>
   handle_double_emoji_message env cfg ev s = (Inr (), s)"
  by (simp add: handle_double_emoji_message_def)

lemma listener_mixes_pair:
  assumes "length (py_strip (message_str ev)) \<le> 10"
    and "extract_valid_emojis env cfg (py_strip (message_str ev)) = [a, b]" and "a \<noteq> b"
  shows "handle_double_emoji_message env cfg ev s =
           (case find_mixed_emoji_url env cfg a b s of
              (Inl e, s') \<Rightarrow> (Inl e, s')
            | (Inr mix_url, s') \<Rightarrow> (Inr (), s'))"
  using assms
  by (simp add: handle_double_emoji_message_def process_mix_request_def
           split: prod.splits sum.splits)

lemma listener_state:
  assumes "handle_double_emoji_message env cfg ev s =
           (case find_mixed_emoji_url env cfg a b s of
              (Inl e, s') \<Rightarrow> (Inl e, s')
            | (Inr mix_url, s') \<Rightarrow> (Inr (), s'))"
  shows "snd (handle_double_emoji_message env cfg ev s)
           = snd (find_mixed_emoji_url env cfg a b s)"
  using assms by (simp split: prod.splits sum.splits)

text \<open>
  With the default configuration, whose list of date codes is not empty, the resolver
  issues at least one probe for two distinct emoji with non-empty hex codes.
\<close>

lemma resolver_probes_once:
  assumes "a \<noteq> b"
    and "py_truthy (get_emoji_hex_code a)" and "py_truthy (get_emoji_hex_code b)"
  shows "length (probes s) < length (probes (snd (find_mixed_emoji_url env load_config a b s)))"
proof -
  obtain h1 where h1: "get_emoji_hex_code a = Some h1" "h1 \<noteq> []"
    using assms(2) by (cases "get_emoji_hex_code a") auto
  obtain h2 where h2: "get_emoji_hex_code b = Some h2" "h2 \<noteq> []"
    using assms(3) by (cases "get_emoji_hex_code b") auto
  obtain ds where
    ds: "config_get load_config ''date_codes'' = Inr (VList (ascii ''20240204'' # ds))"
    using load_config_dates by blast
  obtain r s' where run: "find_mixed_emoji_url env load_config a b s = (r, s')"
    by (cases "find_mixed_emoji_url env load_config a b s")
  have "find_mixed_emoji_url env load_config a b s
          = probe_urls env (VFloat 3) (probe_sequence (ascii ''20240204'' # ds) h1 h2) s"
    using load_config_timeout ds refl assms(1) h1(1) h1(2) h2(1) h2(2)
    by (rule find_mixed_emoji_url_flat)
  with run have "probe_urls env (VFloat 3) (probe_sequence (ascii ''20240204'' # ds) h1 h2) s
                   = (r, s')"
    by simp
  from probe_urls_trace [OF this] obtain log where
    log: "probes s' = probes s @ log"
    and verdict: "case r of
          Inr (Some url) \<Rightarrow> log \<noteq> [] \<and> last log = (url, Response 200)
        | Inr None \<Rightarrow> length log = length (probe_sequence (ascii ''20240204'' # ds) h1 h2)
                       \<and> (\<forall>p \<in> set log. continues (snd p))
        | Inl e \<Rightarrow> log \<noteq> [] \<and> snd (last log) = Raises e \<and> e \<noteq> RequestError"
    by blast
  have "log \<noteq> []"
    using verdict by (auto simp add: probe_sequence_def split: sum.splits option.splits)
  with log run show ?thesis by simp
qed

lemma strip_padded_message: "py_strip padded_message = [0x1F60A, 0x1F436]"
  by (simp add: py_strip_def py_isspace_def padded_message_def)

lemma strip_eleven_message: "py_strip eleven_message = eleven_message"
  by (simp add: py_strip_def py_isspace_def eleven_message_def)

lemma strip_ten_message: "py_strip ten_message = ten_message"
  by (simp add: py_strip_def py_isspace_def ten_message_def)

lemma demo_extract_pair:
  "extract_valid_emojis demo_env load_config [0x1F60A, 0x1F436] = [[0x1F60A], [0x1F436]]"
  by (simp add: extract_valid_emojis_def demo_env_def demo_is_emoji_def
        set_to_list_def load_config_max py_slice_to_def)

lemma demo_emoji_list_ten:
  "emoji_list demo_env ten_message =
     Inr [\<lparr>match_start = 0, match_end = 1, emoji = [0x1F60A]\<rparr>,
          \<lparr>match_start = 1, match_end = 2, emoji = [0x1F436]\<rparr>]"
  by (simp add: demo_env_def demo_is_emoji_def ten_message_def)

text \<open>
  Claim C5, as the code has it. The passive listener measures the message text after
  \<open>strip\<close> has removed leading and trailing white space. If this text is exactly 11
  characters long, the listener returns without entering the mixing flow and leaves the
  state as it was: no probe is issued. If it is exactly 10 characters long, the detector
  does not raise and the emoji it finds and accepts are exactly two distinct ones, the
  listener runs the mixing flow: the resolver is called on the two emoji, in one of the
  two orders, the listener ends in the state in which the resolver ends, and if both emoji
  have a non-empty hex code at least one probe has been issued.
\<close>

theorem passive_listener_length_boundary:
  "(length (py_strip (message_str ev)) = 11 \<longrightarrow>
      handle_double_emoji_message env load_config ev s = (Inr (), s))
   \<and> (length (py_strip (message_str ev)) = 10
        \<and> emoji_list env (py_strip (message_str ev)) = Inr es
        \<and> (\<forall>x \<in> set es. \<exists>ok. is_emoji env (emoji x) = Inr ok)
        \<and> emoji ` {x \<in> set es. is_emoji env (emoji x) = Inr True} = {e1, e2}
        \<and> e1 \<noteq> e2 \<longrightarrow>
      (\<exists>a b. (a = e1 \<and> b = e2 \<or> a = e2 \<and> b = e1)
         \<and> handle_double_emoji_message env load_config ev s =
             (case find_mixed_emoji_url env load_config a b s of
                (Inl e, s') \<Rightarrow> (Inl e, s')
              | (Inr mix_url, s') \<Rightarrow> (Inr (), s'))
         \<and> snd (handle_double_emoji_message env load_config ev s)
             = snd (find_mixed_emoji_url env load_config a b s))
      \<and> (py_truthy (get_emoji_hex_code e1) \<and> py_truthy (get_emoji_hex_code e2) \<longrightarrow>
           length (probes s)
             < length (probes (snd (handle_double_emoji_message env load_config ev s)))))"
proof (intro conjI impI)
  assume "length (py_strip (message_str ev)) = 11"
  then show "handle_double_emoji_message env load_config ev s = (Inr (), s)"
    by (simp add: listener_skips_long)
next
  assume h: "length (py_strip (message_str ev)) = 10
        \<and> emoji_list env (py_strip (message_str ev)) = Inr es
        \<and> (\<forall>x \<in> set es. \<exists>ok. is_emoji env (emoji x) = Inr ok)
        \<and> emoji ` {x \<in> set es. is_emoji env (emoji x) = Inr True} = {e1, e2}
        \<and> e1 \<noteq> e2"
  then have len: "length (py_strip (message_str ev)) \<le> 10" by simp
  from h have two: "extract_valid_emojis env load_config (py_strip (message_str ev)) = [e1, e2]
       \<or> extract_valid_emojis env load_config (py_strip (message_str ev)) = [e2, e1]"
    by (intro extract_two) auto
  from two show "\<exists>a b. (a = e1 \<and> b = e2 \<or> a = e2 \<and> b = e1)
         \<and> handle_double_emoji_message env load_config ev s =
             (case find_mixed_emoji_url env load_config a b s of
                (Inl e, s') \<Rightarrow> (Inl e, s')
              | (Inr mix_url, s') \<Rightarrow> (Inr (), s'))
         \<and> snd (handle_double_emoji_message env load_config ev s)
             = snd (find_mixed_emoji_url env load_config a b s)"
  proof
    assume "extract_valid_emojis env load_config (py_strip (message_str ev)) = [e1, e2]"
    from listener_mixes_pair [OF len this] h
    have run: "handle_double_emoji_message env load_config ev s =
             (case find_mixed_emoji_url env load_config e1 e2 s of
                (Inl e, s') \<Rightarrow> (Inl e, s')
              | (Inr mix_url, s') \<Rightarrow> (Inr (), s'))"
      by blast
    from run listener_state [OF run] show ?thesis by blast
  next
    assume "extract_valid_emojis env load_config (py_strip (message_str ev)) = [e2, e1]"
    from listener_mixes_pair [OF len this] h
    have run: "handle_double_emoji_message env load_config ev s =
             (case find_mixed_emoji_url env load_config e2 e1 s of
                (Inl e, s') \<Rightarrow> (Inl e, s')
              | (Inr mix_url, s') \<Rightarrow> (Inr (), s'))"
      by blast
    from run listener_state [OF run] show ?thesis by blast
  qed
  assume t: "py_truthy (get_emoji_hex_code e1) \<and> py_truthy (get_emoji_hex_code e2)"
  from two show "length (probes s)
             < length (probes (snd (handle_double_emoji_message env load_config ev s)))"
  proof
    assume "extract_valid_emojis env load_config (py_strip (message_str ev)) = [e1, e2]"
    from listener_mixes_pair [OF len this] h
    have run: "handle_double_emoji_message env load_config ev s =
             (case find_mixed_emoji_url env load_config e1 e2 s of
                (Inl e, s') \<Rightarrow> (Inl e, s')
              | (Inr mix_url, s') \<Rightarrow> (Inr (), s'))"
      by blast
    from h t have "length (probes s)
        < length (probes (snd (find_mixed_emoji_url env load_config e1 e2 s)))"
      by (intro resolver_probes_once) auto
    with listener_state [OF run] show ?thesis by simp
  next
    assume "extract_valid_emojis env load_config (py_strip (message_str ev)) = [e2, e1]"
    from listener_mixes_pair [OF len this] h
    have run: "handle_double_emoji_message env load_config ev s =
             (case find_mixed_emoji_url env load_config e2 e1 s of
                (Inl e, s') \<Rightarrow> (Inl e, s')
              | (Inr mix_url, s') \<Rightarrow> (Inr (), s'))"
      by blast
    from h t have "length (probes s)
        < length (probes (snd (find_mixed_emoji_url env load_config e2 e1 s)))"
      by (intro resolver_probes_once) auto
    with listener_state [OF run] show ?thesis by simp
  qed
qed

theorem passive_listener_length_boundary_witness:
  "length (py_strip (message_str \<lparr>message_str = eleven_message\<rparr>)) = 11
   \<and> handle_double_emoji_message demo_env load_config \<lparr>message_str = eleven_message\<rparr>
        (start first_hit_world) = (Inr (), start first_hit_world)
   \<and> length (py_strip (message_str \<lparr>message_str = ten_message\<rparr>)) = 10
   \<and> emoji_list demo_env (py_strip (message_str \<lparr>message_str = ten_message\<rparr>))
       = Inr [\<lparr>match_start = 0, match_end = 1, emoji = [0x1F60A]\<rparr>,
              \<lparr>match_start = 1, match_end = 2, emoji = [0x1F436]\<rparr>]
   \<and> is_emoji demo_env [0x1F60A] = Inr True
   \<and> is_emoji demo_env [0x1F436] = Inr True
   \<and> emoji ` {x \<in> set [\<lparr>match_start = 0, match_end = 1, emoji = [0x1F60A]\<rparr>,
                          \<lparr>match_start = 1, match_end = 2, emoji = [0x1F436]\<rparr>].
                 is_emoji demo_env (emoji x) = Inr True}
       = {[0x1F60A], [0x1F436]}
   \<and> [0x1F60A] \<noteq> [0x1F436 :: nat]
   \<and> py_truthy (get_emoji_hex_code [0x1F60A])
   \<and> py_truthy (get_emoji_hex_code [0x1F436])
   \<and> (\<exists>a b. (a = [0x1F60A] \<and> b = [0x1F436] \<or> a = [0x1F436] \<and> b = [0x1F60A])
         \<and> handle_double_emoji_message demo_env load_config \<lparr>message_str = ten_message\<rparr>
              (start first_hit_world) =
             (case find_mixed_emoji_url demo_env load_config a b (start first_hit_world) of
                (Inl e, s') \<Rightarrow> (Inl e, s')
              | (Inr mix_url, s') \<Rightarrow> (Inr (), s'))
         \<and> snd (handle_double_emoji_message demo_env load_config \<lparr>message_str = ten_message\<rparr>
                 (start first_hit_world))
             = snd (find_mixed_emoji_url demo_env load_config a b (start first_hit_world)))
   \<and> length (probes (start first_hit_world))
       < length (probes (snd (handle_double_emoji_message demo_env load_config
                                \<lparr>message_str = ten_message\<rparr> (start first_hit_world))))"
proof -
  let ?es = "[\<lparr>match_start = 0, match_end = 1, emoji = [0x1F60A]\<rparr>,
              \<lparr>match_start = 1, match_end = 2, emoji = [0x1F436]\<rparr>]"
  have len11: "length (py_strip (message_str \<lparr>message_str = eleven_message\<rparr>)) = 11"
    by (simp add: strip_eleven_message) (simp add: eleven_message_def)
  have len10: "length (py_strip (message_str \<lparr>message_str = ten_message\<rparr>)) = 10"
    by (simp add: strip_ten_message) (simp add: ten_message_def)
  have found: "emoji_list demo_env (py_strip (message_str \<lparr>message_str = ten_message\<rparr>))
       = Inr ?es"
    by (simp add: strip_ten_message demo_emoji_list_ten)
  have valid1: "is_emoji demo_env [0x1F60A] = Inr True"
    and valid2: "is_emoji demo_env [0x1F436] = Inr True"
    by (simp_all add: demo_env_def demo_is_emoji_def)
  have total: "\<forall>x \<in> set ?es. \<exists>ok. is_emoji demo_env (emoji x) = Inr ok"
    by (simp add: demo_env_def)
  have two: "emoji ` {x \<in> set ?es. is_emoji demo_env (emoji x) = Inr True}
       = {[0x1F60A], [0x1F436]}"
    unfolding set_filter [symmetric]
    by (simp add: valid1 valid2 del: set_filter)
  have ne: "[0x1F60A] \<noteq> [0x1F436 :: nat]"
    by simp
  have truthy1: "py_truthy (get_emoji_hex_code [0x1F60A])"
    and truthy2: "py_truthy (get_emoji_hex_code [0x1F436])"
    by (simp_all add: hex_1f60a hex_1f436 ascii_def)
  from passive_listener_length_boundary
         [of "\<lparr>message_str = eleven_message\<rparr>" demo_env "start first_hit_world"]
       len11
  have skipped: "handle_double_emoji_message demo_env load_config \<lparr>message_str = eleven_message\<rparr>
        (start first_hit_world) = (Inr (), start first_hit_world)"
    by blast
  note run =
    passive_listener_length_boundary
      [of "\<lparr>message_str = ten_message\<rparr>" demo_env "start first_hit_world" ?es
          "[0x1F60A]" "[0x1F436]"]
  from run len10 found total two ne
  have mixed: "\<exists>a b. (a = [0x1F60A] \<and> b = [0x1F436] \<or> a = [0x1F436] \<and> b = [0x1F60A])
         \<and> handle_double_emoji_message demo_env load_config \<lparr>message_str = ten_message\<rparr>
              (start first_hit_world) =
             (case find_mixed_emoji_url demo_env load_config a b (start first_hit_world) of
                (Inl e, s') \<Rightarrow> (Inl e, s')
              | (Inr mix_url, s') \<Rightarrow> (Inr (), s'))
         \<and> snd (handle_double_emoji_message demo_env load_config \<lparr>message_str = ten_message\<rparr>
                 (start first_hit_world))
             = snd (find_mixed_emoji_url demo_env load_config a b (start first_hit_world))"
    by blast
  from run len10 found total two ne truthy1 truthy2
  have probed: "length (probes (start first_hit_world))
       < length (probes (snd (handle_double_emoji_message demo_env load_config
                                \<lparr>message_str = ten_message\<rparr> (start first_hit_world))))"
    by blast
  from len11 skipped len10 found valid1 valid2 two ne truthy1 truthy2 mixed probed
  show ?thesis
    by blast
qed

text \<open>
  The claim as stated fails: on a message of 11 characters, two distinct valid emoji
  followed by nine spaces, the length boundary does not hold the listener back. It runs the
  mixing flow, which here issues a probe and finds the image.
\<close>

theorem passive_listener_length_boundary_counterexample:
  "length (message_str \<lparr>message_str = padded_message\<rparr>) = 11
   \<and> handle_double_emoji_message demo_env load_config \<lparr>message_str = padded_message\<rparr>
        (start first_hit_world)
     = (Inr (),
        \<lparr>world = first_hit_world,
         probes =
           [(candidate_url (ascii ''20240204'') (ascii ''u1f60a'') (ascii ''u1f436''),
             Response 200)]\<rparr>)
   \<and> probes (start first_hit_world) = []"
proof -
  have "length (message_str \<lparr>message_str = padded_message\<rparr>) = 11"
    by (simp add: padded_message_def)
  moreover have
    "handle_double_emoji_message demo_env load_config \<lparr>message_str = padded_message\<rparr>
       (start first_hit_world)
     = (Inr (),
        \<lparr>world = first_hit_world,
         probes =
           [(candidate_url (ascii ''20240204'') (ascii ''u1f60a'') (ascii ''u1f436''),
             Response 200)]\<rparr>)"
    by (simp add: handle_double_emoji_message_def strip_padded_message demo_extract_pair
          process_mix_request_def first_hit_run candidate_url_def ascii_def)
  moreover have "probes (start first_hit_world) = []"
    by (simp add: start_def)
  ultimately show ?thesis by simp
qed

end
